theory Spec2Isabelle
  imports Main
begin

section \<open>Data model (api/models.py)\<close>

text \<open>
  The bookstore keeps three tables. A row is a record; a table is a map from the primary
  key to the row, so \<open>Order.query.get(k)\<close> is the lookup \<open>orders s k\<close> and the \<open>id\<close>
  attribute of a fetched row is the key it was fetched with.
\<close>

datatype OrderStatus = PENDING | PROCESSING | SHIPPED | DELIVERED | CANCELLED

fun status_value :: "OrderStatus \<Rightarrow> string" where
  "status_value PENDING = ''pending''"
| "status_value PROCESSING = ''processing''"
| "status_value SHIPPED = ''shipped''"
| "status_value DELIVERED = ''delivered''"
| "status_value CANCELLED = ''cancelled''"

record User =
  uid :: int
  email :: string
  is_admin :: bool

record Book =
  title :: string
  pdf_path :: string
  stock :: int

text \<open>One entry of the JSON list \<open>items\<close>: \<open>{'book_id': .., 'quantity': ..}\<close>.\<close>

record Item =
  book_id :: int
  quantity :: int

record Order =
  user_id :: int
  order_book_id :: int
  items :: "Item list"
  status :: OrderStatus

text \<open>The message body on both queues: \<open>{'order_id': .., 'items': ..}\<close>.\<close>

record update_data =
  order_id :: int
  msg_items :: "Item list"

section \<open>Exceptions, effects and the store\<close>

datatype exn =
    NotFound
  | InsufficientStockError
  | AttributeError
  | KeyError
  | SQLAlchemyError
  | IOError

text \<open>
  What a function sends out of the process, in the order it happens:
  a socket event of \<open>send_order_status_update(user_id, order_id, status)\<close>, a message
  published on the queue \<open>order_processing\<close> or \<open>inventory_update\<close>, the thread that
  \<open>initiate_shipping\<close> starts on \<open>ship_order\<close>, and the call of \<open>send_book_email\<close>.
\<close>

datatype effect =
    StatusUpdate int int string
  | PublishOrder update_data
  | PublishInventoryUpdate update_data
  | ShippingThread int
  | BookEmail string string string

text \<open>
  The SQLAlchemy session is a unit of work: attribute writes and \<open>db.session.add\<close> change
  the session's view (\<open>books\<close>, \<open>orders\<close>); \<open>commit\<close> makes the view the stored tables,
  \<open>rollback\<close> resets the view to the stored tables. Whether a commit goes through is the
  store's decision: \<open>commit_outcomes\<close> lists the outcome of the commits to come
  (\<open>False\<close> is a commit that raises); past the end of the list every commit succeeds.
\<close>

record db =
  books :: "int \<rightharpoonup> Book"
  orders :: "int \<rightharpoonup> Order"
  users :: "int \<rightharpoonup> User"
  stored_books :: "int \<rightharpoonup> Book"
  stored_orders :: "int \<rightharpoonup> Order"
  commit_outcomes :: "bool list"
  next_order_id :: int
  effects :: "effect list"

definition stored :: "db \<Rightarrow> db" where
  "stored s = s\<lparr>stored_books := books s, stored_orders := orders s\<rparr>"

definition commit :: "db \<Rightarrow> (exn + unit) \<times> db" where
  "commit s =
     (case commit_outcomes s of
        [] \<Rightarrow> (Inr (), stored s)
      | ok # rest \<Rightarrow>
          if ok then (Inr (), stored (s\<lparr>commit_outcomes := rest\<rparr>))
          else (Inl SQLAlchemyError, s\<lparr>commit_outcomes := rest\<rparr>))"

definition rollback :: "db \<Rightarrow> db" where
  "rollback s = s\<lparr>books := stored_books s, orders := stored_orders s\<rparr>"

definition emit :: "effect \<Rightarrow> db \<Rightarrow> db" where
  "emit e s = s\<lparr>effects := effects s @ [e]\<rparr>"

text \<open>services/notification_service.py: one socket event per call.\<close>

definition send_order_status_update :: "int \<Rightarrow> int \<Rightarrow> string \<Rightarrow> db \<Rightarrow> db" where
  "send_order_status_update user order st s = emit (StatusUpdate user order st) s"

text \<open>The assignment \<open>order.status = v\<close> on the row fetched with key \<open>k\<close>.\<close>

definition set_status :: "int \<Rightarrow> Order \<Rightarrow> OrderStatus \<Rightarrow> db \<Rightarrow> db" where
  "set_status k order v s = s\<lparr>orders := (orders s)(k \<mapsto> order\<lparr>status := v\<rparr>)\<rparr>"

section \<open>Inventory reservation (services/inventory_management.py)\<close>

text \<open>
  The first loop of \<open>update_inventory\<close>. \<open>Book.query.get_or_404\<close> raises \<open>NotFound\<close>
  for a missing row, so the \<open>if not book\<close> line after it is never taken. Each item is
  compared with the stock as it is read; nothing is written.
\<close>

fun check_stock :: "(int \<rightharpoonup> Book) \<Rightarrow> Item list \<Rightarrow> exn + unit" where
  "check_stock bs [] = Inr ()"
| "check_stock bs (item # rest) =
     (case bs (book_id item) of
        None \<Rightarrow> Inl NotFound
      | Some book \<Rightarrow>
          if stock book < quantity item then Inl InsufficientStockError
          else check_stock bs rest)"

text \<open>
  The second loop: \<open>book.stock -= item['quantity']\<close> on the session's row. A raise in
  the middle of the loop would leave the earlier subtractions in the session, so the
  books come back with the result.
\<close>

fun deduct_stock :: "(int \<rightharpoonup> Book) \<Rightarrow> Item list \<Rightarrow> (exn + unit) \<times> (int \<rightharpoonup> Book)" where
  "deduct_stock bs [] = (Inr (), bs)"
| "deduct_stock bs (item # rest) =
     (case bs (book_id item) of
        None \<Rightarrow> (Inl NotFound, bs)
      | Some book \<Rightarrow>
          deduct_stock (bs(book_id item \<mapsto> book\<lparr>stock := stock book - quantity item\<rparr>)) rest)"

text \<open>
  A JSON response with its HTTP status, as the routes (and the commit handler of
  \<open>update_inventory\<close>) build it: the fields of the body, then the code.
\<close>

datatype jvalue = Str string | Num int | ErrStr exn

type_synonym response = "(string \<times> jvalue) list \<times> nat"

text \<open>
  The body of the \<open>try\<close> of \<open>update_inventory\<close>, lines 29 to 52. \<open>order\<close> is what
  \<open>Order.query.get\<close> returned before the \<open>try\<close>; on \<open>None\<close> the assignment
  \<open>order.status = ..\<close> raises \<open>AttributeError\<close>, after the subtractions. The inner handler
  of a failed commit rolls back and returns the pair of a response and 500.
\<close>

definition reserve :: "int \<Rightarrow> Order option \<Rightarrow> Item list \<Rightarrow> db \<Rightarrow> (exn + response option) \<times> db" where
  "reserve k order its s =
     (case check_stock (books s) its of
        Inl e \<Rightarrow> (Inl e, s)
      | Inr _ \<Rightarrow>
          (case deduct_stock (books s) its of
             (Inl e, bs) \<Rightarrow> (Inl e, s\<lparr>books := bs\<rparr>)
           | (Inr _, bs) \<Rightarrow>
               (case order of
                  None \<Rightarrow> (Inl AttributeError, s\<lparr>books := bs\<rparr>)
                | Some row \<Rightarrow>
                    (case commit (set_status k row PROCESSING (s\<lparr>books := bs\<rparr>)) of
                       (Inl e, s') \<Rightarrow>
                         (Inr (Some ([(''message'', Str ''Error updating Inventory''),
                                      (''error'', ErrStr e)], 500)),
                          rollback s')
                     | (Inr _, s') \<Rightarrow>
                         (Inr None,
                          send_order_status_update (user_id row) k
                            (status_value PROCESSING) s')))))"

text \<open>
  The two \<open>except\<close> clauses have the same body: the log line reads \<open>order.id\<close> (an
  \<open>AttributeError\<close> when there is no order, raised inside the handler and so leaving
  the function), then the order is cancelled, committed and announced.
\<close>

definition cancel_after_error :: "int \<Rightarrow> Order option \<Rightarrow> db \<Rightarrow> (exn + response option) \<times> db" where
  "cancel_after_error k order s =
     (case order of
        None \<Rightarrow> (Inl AttributeError, s)
      | Some row \<Rightarrow>
          (case commit (set_status k row CANCELLED s) of
             (Inl e, s') \<Rightarrow> (Inl e, s')
           | (Inr _, s') \<Rightarrow>
               (Inr None,
                send_order_status_update (user_id row) k (status_value CANCELLED) s')))"

definition update_inventory :: "update_data \<Rightarrow> db \<Rightarrow> (exn + response option) \<times> db" where
  "update_inventory msg s =
     (let order = orders s (order_id msg) in
      case reserve (order_id msg) order (msg_items msg) s of
        (Inl InsufficientStockError, s') \<Rightarrow> cancel_after_error (order_id msg) order s'
      | (Inl e, s') \<Rightarrow> cancel_after_error (order_id msg) order s'
      | (Inr r, s') \<Rightarrow> (Inr r, s'))"

section \<open>Order intake and the order consumer (services/order_processing.py)\<close>

text \<open>
  The JSON body of \<open>POST /orders\<close>. \<open>None\<close> as the body is a \<open>request.json\<close> that
  Python takes as false (no body, or the empty object); \<open>Some p\<close> is a non-empty
  object, in which each of the two keys read by \<open>process_order\<close> may be missing.
  Values of another JSON type than the columns hold are outside this model.
\<close>

record payload =
  p_book_id :: "int option"
  p_items :: "Item list option"

text \<open>
  \<open>process_order\<close>: the constructor reads \<open>order_data['book_id']\<close> and
  \<open>order_data['items']\<close> inside the \<open>try\<close>, so a missing key (\<open>KeyError\<close>) and a failed
  commit both end in \<open>return None\<close>. The new row takes the next free key.
  \<open>rabbitmq.publish_order\<close> catches its own failures, so nothing is raised after the
  \<open>try\<close>. The result is the key of the new order, or \<open>None\<close>.
\<close>

definition process_order :: "int \<Rightarrow> payload \<Rightarrow> db \<Rightarrow> int option \<times> db" where
  "process_order current_user order_data s =
     (case p_book_id order_data of
        None \<Rightarrow> (None, s)
      | Some b \<Rightarrow>
          (case p_items order_data of
             None \<Rightarrow> (None, s)
           | Some its \<Rightarrow>
               (let k = next_order_id s;
                    order = \<lparr>user_id = current_user, order_book_id = b, items = its,
                             status = PENDING\<rparr>
                in case commit (s\<lparr>orders := (orders s)(k \<mapsto> order),
                                   next_order_id := k + 1\<rparr>) of
                     (Inl e, s') \<Rightarrow> (None, s')
                   | (Inr _, s') \<Rightarrow>
                       (Some k,
                        send_order_status_update (user_id order) k
                          (status_value (status order))
                          (emit (PublishOrder \<lparr>order_id = k, msg_items = items order\<rparr>)
                             s')))))"

text \<open>
  \<open>initiate_shipping\<close> starts a daemon thread on \<open>ship_order\<close> and returns; the model
  records the start of the thread.
\<close>

definition initiate_shipping :: "int \<Rightarrow> db \<Rightarrow> db" where
  "initiate_shipping k s = emit (ShippingThread k) s"

text \<open>
  \<open>order_processor\<close>, the callback on the queue \<open>order_processing\<close>. The row is fetched
  with \<open>Order.query.get\<close> and written without a test for \<open>None\<close>; the status is
  assigned whatever it was; shipping is started right after the inventory message is
  published.
\<close>

definition order_processor :: "update_data \<Rightarrow> db \<Rightarrow> (exn + unit) \<times> db" where
  "order_processor order_data s =
     (let k = order_id order_data in
      case orders s k of
        None \<Rightarrow> (Inl AttributeError, s)
      | Some row \<Rightarrow>
          (case commit (set_status k row PROCESSING s) of
             (Inl e, s') \<Rightarrow> (Inl e, s')
           | (Inr _, s') \<Rightarrow>
               (Inr (),
                initiate_shipping k
                  (emit (PublishInventoryUpdate \<lparr>order_id = k, msg_items = items row\<rparr>)
                     (send_order_status_update (user_id row) k
                        (status_value PROCESSING) s')))))"

section \<open>Shipping (services/shipping_service.py)\<close>

text \<open>
  \<open>send_book_email\<close> belongs to the mail collaborator: it raises when the PDF cannot be
  opened and otherwise returns \<open>True\<close> (sent) or \<open>False\<close> (the mail server refused).
  \<open>ship_order\<close> takes its outcome as the parameter \<open>sent\<close>.

  Line 45 of the source reads \<open>if send_book_email == True\<close>: it compares the function
  object, not the value the call returned, and a function object never equals \<open>True\<close>.
\<close>

definition send_book_email_eq_True :: bool where
  "send_book_email_eq_True = False"

definition ship_order :: "(exn + bool) \<Rightarrow> int \<Rightarrow> db \<Rightarrow> (exn + unit) \<times> db" where
  "ship_order sent k s =
     (case orders s k of
        None \<Rightarrow> (Inl AttributeError, s)
      | Some order \<Rightarrow>
          (case users s (user_id order) of
             None \<Rightarrow> (Inl AttributeError, s)
           | Some user \<Rightarrow>
               (case books s (order_book_id order) of
                  None \<Rightarrow> (Inl AttributeError, s)
                | Some book \<Rightarrow>
                    (let s1 = emit (BookEmail (email user) (pdf_path book) (title book)) s in
                     case sent of
                       Inl e \<Rightarrow> (Inl e, s1)
                     | Inr _ \<Rightarrow>
                         (case commit (set_status k order SHIPPED s1) of
                            (Inl e, s2) \<Rightarrow> (Inl e, s2)
                          | (Inr _, s2) \<Rightarrow>
                              (let s3 = send_order_status_update (user_id order) k
                                          (status_value SHIPPED) s2;
                                   final = (if send_book_email_eq_True then DELIVERED
                                            else CANCELLED)
                               in case commit (set_status k (order\<lparr>status := SHIPPED\<rparr>)
                                                 final s3) of
                                    (Inl e, s4) \<Rightarrow> (Inl e, s4)
                                  | (Inr _, s4) \<Rightarrow>
                                      (Inr (),
                                       send_order_status_update (user_id order) k
                                         (status_value final) s4)))))))"

section \<open>The order routes (api/routes.py)\<close>

text \<open>
  The routes run for a logged-in \<open>current_user\<close>. \<open>get_or_404\<close> aborts the request
  with \<open>NotFound\<close>; every other outcome is a response. \<open>process_order\<close> raises
  nothing, so the \<open>except\<close> clause of \<open>place_order\<close> is never entered.
\<close>

definition place_order :: "User \<Rightarrow> payload option \<Rightarrow> db \<Rightarrow> response \<times> db" where
  "place_order current_user data s =
     (case data of
        None \<Rightarrow> (([(''message'', Str ''No data provided'')], 400), s)
      | Some d \<Rightarrow>
          (case process_order (uid current_user) d s of
             (None, s') \<Rightarrow>
               (([(''error'', Str ''Order processing failed, try again'')], 400), s')
           | (Some k, s') \<Rightarrow>
               (([(''message'', Str ''Order placed successfully''), (''order_id'', Num k)],
                 201), s')))"

definition get_order_status :: "User \<Rightarrow> int \<Rightarrow> db \<Rightarrow> (exn + response) \<times> db" where
  "get_order_status current_user k s =
     (case orders s k of
        None \<Rightarrow> (Inl NotFound, s)
      | Some order \<Rightarrow>
          if user_id order \<noteq> uid current_user \<and> \<not> is_admin current_user
          then (Inr ([(''message'', Str ''Unauthorized'')], 403), s)
          else (Inr ([(''status'', Str (status_value (status order)))], 200), s))"

definition cancel_order :: "User \<Rightarrow> int \<Rightarrow> db \<Rightarrow> (exn + response) \<times> db" where
  "cancel_order current_user k s =
     (case orders s k of
        None \<Rightarrow> (Inl NotFound, s)
      | Some order \<Rightarrow>
          if user_id order \<noteq> uid current_user \<and> \<not> is_admin current_user
          then (Inr ([(''message'', Str ''Unauthorized'')], 403), s)
          else if status order \<in> set [PENDING, PROCESSING] then
            (case commit (set_status k order CANCELLED s) of
               (Inr _, s') \<Rightarrow>
                 (Inr ([(''message'', Str ''Order cancelled successfully''),
                        (''status'', Str (status_value CANCELLED))], 200),
                  send_order_status_update (user_id order) k (status_value CANCELLED) s')
             | (Inl e, s') \<Rightarrow>
                 (Inr ([(''message'', Str ''Error cancelling order''), (''error'', ErrStr e)],
                       500),
                  rollback s'))
          else
            (Inr ([(''message'', Str ''Order cannot be cancelled''),
                   (''status'', Str (status_value (status order)))], 400), s))"

section \<open>Vocabulary of the properties\<close>

text \<open>The store accepts the next \<open>n\<close> commits.\<close>

definition commits_ok :: "nat \<Rightarrow> db \<Rightarrow> bool" where
  "commits_ok n s = list_all (\<lambda>ok. ok) (take n (commit_outcomes s))"

text \<open>
  A line item that cannot be served from the books as they stand: its book is missing,
  or the book's stock is below the item's quantity.
\<close>

definition unavailable :: "(int \<rightharpoonup> Book) \<Rightarrow> Item \<Rightarrow> bool" where
  "unavailable bs item =
     (case bs (book_id item) of None \<Rightarrow> True | Some book \<Rightarrow> stock book < quantity item)"

text \<open>The total quantity an item list asks of book \<open>b\<close>.\<close>

definition demand :: "Item list \<Rightarrow> int \<Rightarrow> int" where
  "demand its b = sum_list (map quantity (filter (\<lambda>item. book_id item = b) its))"

subsection \<open>A small shop for concrete runs\<close>

definition shelf :: "int \<rightharpoonup> Book" where
  "shelf = [1 \<mapsto> \<lparr>title = ''A'', pdf_path = ''a.pdf'', stock = 5\<rparr>,
            2 \<mapsto> \<lparr>title = ''B'', pdf_path = ''b.pdf'', stock = 2\<rparr>,
            3 \<mapsto> \<lparr>title = ''C'', pdf_path = ''c.pdf'', stock = 6\<rparr>]"

definition alice :: User where
  "alice = \<lparr>uid = 10, email = ''alice@example.org'', is_admin = False\<rparr>"

definition mallory :: User where
  "mallory = \<lparr>uid = 11, email = ''mallory@example.org'', is_admin = False\<rparr>"

text \<open>Alice's order of key 1 for the given items, in the given status.\<close>

definition order_of :: "Item list \<Rightarrow> OrderStatus \<Rightarrow> Order" where
  "order_of its st = \<lparr>user_id = 10, order_book_id = 1, items = its, status = st\<rparr>"

definition shop :: "Order \<Rightarrow> bool list \<Rightarrow> db" where
  "shop order outcomes =
     \<lparr>books = shelf, orders = [1 \<mapsto> order], users = [10 \<mapsto> alice, 11 \<mapsto> mallory],
      stored_books = shelf, stored_orders = [1 \<mapsto> order],
      commit_outcomes = outcomes, next_order_id = 2, effects = []\<rparr>"

definition item :: "int \<Rightarrow> int \<Rightarrow> Item" where
  "item b q = \<lparr>book_id = b, quantity = q\<rparr>"

section \<open>Properties\<close>

subsection \<open>Facts about the store and the two loops\<close>

lemma commit_accepted:
  assumes "commits_ok (Suc n) s"
  shows "commit s = (Inr (), stored (s\<lparr>commit_outcomes := tl (commit_outcomes s)\<rparr>))"
  using assms by (cases "commit_outcomes s") (simp_all add: commit_def commits_ok_def stored_def)

lemma commit_effects: "effects (snd (commit s)) = effects s"
  by (simp add: commit_def stored_def split: list.splits)

lemma commit_effectsD: "commit s = (r, s') \<Longrightarrow> effects s' = effects s"
  using commit_effects [of s] by simp

lemma commits_ok_set_status [simp]:
  "commits_ok n (set_status k row v s) = commits_ok n s"
  by (simp add: commits_ok_def set_status_def)

lemma check_stock_Inr_iff:
  "check_stock bs its = Inr () \<longleftrightarrow> (\<forall>it \<in> set its. \<not> unavailable bs it)"
  by (induction its) (auto simp: unavailable_def split: option.splits)

lemma check_stock_fails:
  assumes "it \<in> set its" and "unavailable bs it"
  obtains e where "check_stock bs its = Inl e"
  using assms check_stock_Inr_iff [of bs its] by (cases "check_stock bs its") auto

lemma update_inventory_rejected:
  assumes "check_stock (books s) (msg_items msg) = Inl e"
  shows "update_inventory msg s = cancel_after_error (order_id msg) (orders s (order_id msg)) s"
  using assms by (cases e) (simp_all add: update_inventory_def reserve_def)

lemma cancel_after_error_accepted:
  assumes "commits_ok (Suc n) s"
  shows "cancel_after_error k (Some row) s =
           (Inr None,
            s\<lparr>orders := (orders s)(k \<mapsto> row\<lparr>status := CANCELLED\<rparr>),
              stored_books := books s,
              stored_orders := (orders s)(k \<mapsto> row\<lparr>status := CANCELLED\<rparr>),
              commit_outcomes := tl (commit_outcomes s),
              effects := effects s @ [StatusUpdate (user_id row) k ''cancelled'']\<rparr>)"
proof -
  have "commits_ok (Suc n) (set_status k row CANCELLED s)"
    using assms by simp
  from commit_accepted [OF this] show ?thesis
    by (simp add: cancel_after_error_def send_order_status_update_def emit_def stored_def
        set_status_def)
qed

lemma deduct_stock_ok:
  "\<forall>it \<in> set its. book_id it \<in> dom bs \<Longrightarrow> fst (deduct_stock bs its) = Inr ()"
proof (induction its arbitrary: bs)
  case Nil
  then show ?case by simp
next
  case (Cons it its)
  then obtain book where book: "bs (book_id it) = Some book"
    by auto
  define bs' where "bs' = bs(book_id it \<mapsto> book\<lparr>stock := stock book - quantity it\<rparr>)"
  have "\<forall>x \<in> set its. book_id x \<in> dom bs'"
    using Cons.prems by (auto simp: bs'_def)
  then have "fst (deduct_stock bs' its) = Inr ()"
    by (rule Cons.IH)
  then show ?case
    by (simp add: book bs'_def)
qed

lemma demand_Nil [simp]: "demand [] b = 0"
  by (simp add: demand_def)

lemma demand_Cons [simp]:
  "demand (it # its) b = (if book_id it = b then quantity it else 0) + demand its b"
  by (simp add: demand_def)

lemma deduct_stock_demand:
  "\<forall>it \<in> set its. book_id it \<in> dom bs \<Longrightarrow>
     snd (deduct_stock bs its) b =
       map_option (\<lambda>book. book\<lparr>stock := stock book - demand its b\<rparr>) (bs b)"
proof (induction its arbitrary: bs)
  case Nil
  then show ?case by (cases "bs b") simp_all
next
  case (Cons it its)
  then obtain book where book: "bs (book_id it) = Some book"
    by auto
  define bs' where "bs' = bs(book_id it \<mapsto> book\<lparr>stock := stock book - quantity it\<rparr>)"
  have "\<forall>x \<in> set its. book_id x \<in> dom bs'"
    using Cons.prems by (auto simp: bs'_def)
  then have IH: "snd (deduct_stock bs' its) b =
      map_option (\<lambda>book. book\<lparr>stock := stock book - demand its b\<rparr>) (bs' b)"
    by (rule Cons.IH)
  have step: "deduct_stock bs (it # its) = deduct_stock bs' its"
    by (simp add: book bs'_def)
  show ?case
  proof (cases "book_id it = b")
    case True
    then have "bs' b = Some (book\<lparr>stock := stock book - quantity it\<rparr>)" and "bs b = Some book"
      using book by (simp_all add: bs'_def)
    then show ?thesis
      unfolding step IH using True by (simp add: algebra_simps)
  next
    case False
    then have "bs' b = bs b"
      by (simp add: bs'_def)
    then show ?thesis
      unfolding step IH using False by simp
  qed
qed

lemma available_dom:
  "\<forall>it \<in> set its. \<not> unavailable bs it \<Longrightarrow> \<forall>it \<in> set its. book_id it \<in> dom bs"
  by (auto simp: unavailable_def split: option.splits)

lemma deduct_stock_after_check:
  assumes "check_stock bs its = Inr ()"
  obtains bs' where "deduct_stock bs its = (Inr (), bs')"
proof -
  have "\<forall>it \<in> set its. book_id it \<in> dom bs"
    using assms by (simp add: check_stock_Inr_iff available_dom)
  then have "fst (deduct_stock bs its) = Inr ()"
    by (rule deduct_stock_ok)
  then show ?thesis
    using that by (cases "deduct_stock bs its") simp
qed

lemma reserve_accepted:
  assumes chk: "check_stock (books s) its = Inr ()"
    and ok: "commits_ok (Suc n) s"
  shows "reserve k (Some row) its s =
           (Inr None,
            s\<lparr>books := snd (deduct_stock (books s) its),
              orders := (orders s)(k \<mapsto> row\<lparr>status := PROCESSING\<rparr>),
              stored_books := snd (deduct_stock (books s) its),
              stored_orders := (orders s)(k \<mapsto> row\<lparr>status := PROCESSING\<rparr>),
              commit_outcomes := tl (commit_outcomes s),
              effects := effects s @ [StatusUpdate (user_id row) k ''processing'']\<rparr>)"
proof -
  obtain bs where ded: "deduct_stock (books s) its = (Inr (), bs)"
    using chk by (rule deduct_stock_after_check)
  have "commits_ok (Suc n) (set_status k row PROCESSING (s\<lparr>books := bs\<rparr>))"
    using ok by (simp add: commits_ok_def set_status_def)
  from commit_accepted [OF this] show ?thesis
    unfolding reserve_def chk ded
    by (simp add: send_order_status_update_def emit_def stored_def set_status_def)
qed

lemma reserve_refused:
  assumes chk: "check_stock (books s) its = Inr ()"
    and no: "commit_outcomes s = False # rest"
  shows "reserve k (Some row) its s =
           (Inr (Some ([(''message'', Str ''Error updating Inventory''),
                        (''error'', ErrStr SQLAlchemyError)], 500)),
            s\<lparr>books := stored_books s, orders := stored_orders s, commit_outcomes := rest\<rparr>)"
proof -
  obtain bs where ded: "deduct_stock (books s) its = (Inr (), bs)"
    using chk by (rule deduct_stock_after_check)
  show ?thesis
    unfolding reserve_def chk ded
    by (simp add: commit_def set_status_def no rollback_def)
qed

lemma commits_ok_cases:
  assumes "commits_ok 2 s"
  obtains "commit_outcomes s = []" | "commit_outcomes s = [True]"
  | rest where "commit_outcomes s = True # True # rest"
proof (cases "commit_outcomes s")
  case Nil
  then show ?thesis using that by simp
next
  case (Cons a as)
  then show ?thesis
    using assms that by (cases as) (simp_all add: commits_ok_def numeral_2_eq_2)
qed


lemma ship_order_accepted:
  assumes "orders s k = Some row" and "users s (user_id row) = Some user"
    and "books s (order_book_id row) = Some book" and "commits_ok 2 s"
  shows "fst (ship_order (Inr sent) k s) = Inr ()
       \<and> orders (snd (ship_order (Inr sent) k s)) = (orders s)(k \<mapsto> row\<lparr>status := CANCELLED\<rparr>)
       \<and> stored_orders (snd (ship_order (Inr sent) k s)) =
           (orders s)(k \<mapsto> row\<lparr>status := CANCELLED\<rparr>)
       \<and> effects (snd (ship_order (Inr sent) k s)) =
           effects s @ [BookEmail (email user) (pdf_path book) (title book),
                        StatusUpdate (user_id row) k ''shipped'',
                        StatusUpdate (user_id row) k ''cancelled'']"
  using assms(4)
proof (cases rule: commits_ok_cases)
  case 1
  then show ?thesis
    by (simp add: ship_order_def assms(1-3) Let_def send_book_email_eq_True_def commit_def
        stored_def set_status_def send_order_status_update_def emit_def)
next
  case 2
  then show ?thesis
    by (simp add: ship_order_def assms(1-3) Let_def send_book_email_eq_True_def commit_def
        stored_def set_status_def send_order_status_update_def emit_def)
next
  case (3 rest)
  then show ?thesis
    by (simp add: ship_order_def assms(1-3) Let_def send_book_email_eq_True_def commit_def
        stored_def set_status_def send_order_status_update_def emit_def)
qed


lemma cancel_order_accepted:
  assumes "orders s k = Some row" and "user_id row = uid u \<or> is_admin u"
    and "status row = PENDING \<or> status row = PROCESSING" and "commits_ok (Suc n) s"
  shows "cancel_order u k s =
           (Inr ([(''message'', Str ''Order cancelled successfully''),
                  (''status'', Str ''cancelled'')], 200),
            s\<lparr>orders := (orders s)(k \<mapsto> row\<lparr>status := CANCELLED\<rparr>),
              stored_books := books s,
              stored_orders := (orders s)(k \<mapsto> row\<lparr>status := CANCELLED\<rparr>),
              commit_outcomes := tl (commit_outcomes s),
              effects := effects s @ [StatusUpdate (user_id row) k ''cancelled'']\<rparr>)"
proof -
  have "commits_ok (Suc n) (set_status k row CANCELLED s)"
    using assms(4) by simp
  from commit_accepted [OF this] show ?thesis
    using assms(2,3)
    by (auto simp: cancel_order_def assms(1) send_order_status_update_def emit_def
        stored_def set_status_def)
qed

lemma cancel_order_refused:
  assumes "orders s k = Some row" and "user_id row = uid u \<or> is_admin u"
    and "status row \<noteq> PENDING" and "status row \<noteq> PROCESSING"
  shows "cancel_order u k s =
           (Inr ([(''message'', Str ''Order cannot be cancelled''),
                  (''status'', Str (status_value (status row)))], 400), s)"
  using assms by (auto simp: cancel_order_def)

lemma process_order_accepted:
  assumes "commits_ok (Suc n) s"
  shows "process_order c \<lparr>p_book_id = Some b, p_items = Some its\<rparr> s =
           (Some (next_order_id s),
            s\<lparr>orders := (orders s)(next_order_id s \<mapsto>
                  \<lparr>user_id = c, order_book_id = b, items = its, status = PENDING\<rparr>),
              stored_books := books s,
              stored_orders := (orders s)(next_order_id s \<mapsto>
                  \<lparr>user_id = c, order_book_id = b, items = its, status = PENDING\<rparr>),
              commit_outcomes := tl (commit_outcomes s),
              next_order_id := next_order_id s + 1,
              effects := effects s @
                [PublishOrder \<lparr>order_id = next_order_id s, msg_items = its\<rparr>,
                 StatusUpdate c (next_order_id s) ''pending'']\<rparr>)"
proof -
  let ?s = "s\<lparr>orders := (orders s)(next_order_id s \<mapsto>
                  \<lparr>user_id = c, order_book_id = b, items = its, status = PENDING\<rparr>),
              next_order_id := next_order_id s + 1\<rparr>"
  have "commits_ok (Suc n) ?s"
    using assms by (simp add: commits_ok_def)
  from commit_accepted [OF this] show ?thesis
    by (simp add: process_order_def Let_def send_order_status_update_def emit_def stored_def)
qed

text \<open>
  What the consumers do without an order, and which effects the reservation can have:
  status events only, never the start of a shipping thread.
\<close>

lemma order_processor_absent:
  "orders s (order_id msg) = None \<Longrightarrow> order_processor msg s = (Inl AttributeError, s)"
  by (simp add: order_processor_def)

lemma reserve_absent:
  "\<exists>e. fst (reserve k None its s) = Inl e"
  by (simp add: reserve_def split: sum.splits prod.splits)

lemma update_inventory_absent:
  assumes "orders s (order_id msg) = None"
  shows "fst (update_inventory msg s) = Inl AttributeError"
proof -
  obtain e s' where r: "reserve (order_id msg) None (msg_items msg) s = (Inl e, s')"
    using reserve_absent [of "order_id msg" "msg_items msg" s]
    by (cases "reserve (order_id msg) None (msg_items msg) s") auto
  show ?thesis
    by (cases e) (simp_all add: update_inventory_def assms r cancel_after_error_def)
qed

lemma cancel_after_error_effects:
  "set (effects (snd (cancel_after_error k order s))) \<subseteq>
     set (effects s) \<union> {StatusUpdate u k' v | u k' v. True}"
proof (cases order)
  case None
  then show ?thesis by (simp add: cancel_after_error_def)
next
  case (Some row)
  have "effects (snd (commit (set_status k row CANCELLED s))) = effects s"
    by (simp add: commit_effects) (simp add: set_status_def)
  then show ?thesis
    by (auto simp: cancel_after_error_def Some send_order_status_update_def emit_def
        split: prod.splits sum.splits)
qed

lemma reserve_effects:
  "set (effects (snd (reserve k order its s))) \<subseteq>
     set (effects s) \<union> {StatusUpdate u k' v | u k' v. True}"
  by (auto simp: reserve_def send_order_status_update_def emit_def rollback_def set_status_def
      split: prod.splits sum.splits option.splits dest!: commit_effectsD)

lemma update_inventory_starts_no_shipping:
  assumes "ShippingThread j \<in> set (effects (snd (update_inventory msg s)))"
  shows "ShippingThread j \<in> set (effects s)"
proof -
  let ?r = "reserve (order_id msg) (orders s (order_id msg)) (msg_items msg) s"
  have r: "ShippingThread j \<in> set (effects (snd ?r)) \<Longrightarrow> ShippingThread j \<in> set (effects s)"
    using reserve_effects [of "order_id msg" "orders s (order_id msg)" "msg_items msg" s]
    by auto
  have c: "ShippingThread j \<in> set (effects (snd (cancel_after_error k order s'))) \<Longrightarrow>
      ShippingThread j \<in> set (effects s')" for k order s'
    using cancel_after_error_effects [of k order s'] by auto
  show ?thesis
  proof (cases ?r)
    case (Pair res s')
    then have s': "snd ?r = s'"
      by simp
    show ?thesis
    proof (cases res)
      case (Inl e)
      then have "update_inventory msg s =
          cancel_after_error (order_id msg) (orders s (order_id msg)) s'"
        using Pair by (cases e) (simp_all add: update_inventory_def)
      with assms c have "ShippingThread j \<in> set (effects s')"
        by simp
      then show ?thesis
        using r s' by simp
    next
      case (Inr v)
      then have "update_inventory msg s = (Inr v, s')"
        using Pair by (simp add: update_inventory_def)
      with assms r s' show ?thesis
        by simp
    qed
  qed
qed

lemma commit_books:
  "books (snd (commit s)) = books s"
  "stored_books (snd (commit s)) = stored_books s \<or> stored_books (snd (commit s)) = books s"
  by (simp_all add: commit_def stored_def split: list.splits)

lemma cancel_after_error_books:
  "books (snd (cancel_after_error k order s)) = books s"
  "stored_books (snd (cancel_after_error k order s)) = stored_books s
   \<or> stored_books (snd (cancel_after_error k order s)) = books s"
proof -
  show "books (snd (cancel_after_error k order s)) = books s"
  proof (cases order)
    case None
    then show ?thesis by (simp add: cancel_after_error_def)
  next
    case (Some row)
    have "books (snd (commit (set_status k row CANCELLED s))) = books s"
      by (simp add: commit_books(1)) (simp add: set_status_def)
    then show ?thesis
      by (auto simp: cancel_after_error_def Some send_order_status_update_def emit_def
          split: prod.splits sum.splits)
  qed
  show "stored_books (snd (cancel_after_error k order s)) = stored_books s
      \<or> stored_books (snd (cancel_after_error k order s)) = books s"
  proof (cases order)
    case None
    then show ?thesis by (simp add: cancel_after_error_def)
  next
    case (Some row)
    have "stored_books (snd (commit (set_status k row CANCELLED s))) = stored_books s
        \<or> stored_books (snd (commit (set_status k row CANCELLED s))) = books s"
      using commit_books(2) [of "set_status k row CANCELLED s"] by (simp add: set_status_def)
    then show ?thesis
      by (auto simp: cancel_after_error_def Some send_order_status_update_def emit_def
          split: prod.splits sum.splits)
  qed
qed

subsection \<open>Reservation is all or nothing\<close>

text \<open>
  C1. When some line item of a reservation message names a book that does not exist, or a
  book whose stock is below the item's quantity, \<open>update_inventory\<close> changes the stock of
  no book: the session's books are what they were, and the stored books are either what
  they were or, after the commit of the cancellation, the untouched books of the session.
  When the order of the message exists and the store accepts that commit, the order ends
  CANCELLED, in the session and in the store, and one status event announces it.
\<close>

theorem update_inventory_all_or_nothing:
  assumes "it \<in> set (msg_items msg)" and "unavailable (books s) it"
  shows "books (snd (update_inventory msg s)) = books s
       \<and> (stored_books (snd (update_inventory msg s)) = stored_books s
          \<or> stored_books (snd (update_inventory msg s)) = books s)
       \<and> (orders s (order_id msg) = Some row \<and> commits_ok 1 s \<longrightarrow>
            fst (update_inventory msg s) = Inr None
          \<and> orders (snd (update_inventory msg s)) =
              (orders s)(order_id msg \<mapsto> row\<lparr>status := CANCELLED\<rparr>)
          \<and> stored_orders (snd (update_inventory msg s)) =
              (orders s)(order_id msg \<mapsto> row\<lparr>status := CANCELLED\<rparr>)
          \<and> stored_books (snd (update_inventory msg s)) = books s
          \<and> effects (snd (update_inventory msg s)) =
              effects s @ [StatusUpdate (user_id row) (order_id msg) ''cancelled''])"
proof -
  obtain e where e: "check_stock (books s) (msg_items msg) = Inl e"
    using assms by (rule check_stock_fails)
  note run = update_inventory_rejected [OF e]
  have "books (snd (update_inventory msg s)) = books s"
    unfolding run by (rule cancel_after_error_books(1))
  moreover have "stored_books (snd (update_inventory msg s)) = stored_books s
      \<or> stored_books (snd (update_inventory msg s)) = books s"
    unfolding run by (rule cancel_after_error_books(2))
  moreover have "fst (update_inventory msg s) = Inr None
          \<and> orders (snd (update_inventory msg s)) =
              (orders s)(order_id msg \<mapsto> row\<lparr>status := CANCELLED\<rparr>)
          \<and> stored_orders (snd (update_inventory msg s)) =
              (orders s)(order_id msg \<mapsto> row\<lparr>status := CANCELLED\<rparr>)
          \<and> stored_books (snd (update_inventory msg s)) = books s
          \<and> effects (snd (update_inventory msg s)) =
              effects s @ [StatusUpdate (user_id row) (order_id msg) ''cancelled'']"
    if "orders s (order_id msg) = Some row" and "commits_ok 1 s"
  proof -
    have ok: "commits_ok (Suc 0) s"
      using that(2) by simp
    show ?thesis
      unfolding run that(1) cancel_after_error_accepted [OF ok] by simp
  qed
  ultimately show ?thesis
    by blast
qed

text \<open>
  The order of the specification's example: one copy of book 1 (stock 5) and a hundred
  copies of book 2 (stock 2).
\<close>

theorem update_inventory_all_or_nothing_witness:
  "item 2 100 \<in> set (msg_items \<lparr>order_id = 1, msg_items = [item 1 1, item 2 100]\<rparr>)
   \<and> unavailable (books (shop (order_of [item 1 1, item 2 100] PROCESSING) [])) (item 2 100)
   \<and> orders (shop (order_of [item 1 1, item 2 100] PROCESSING) []) 1 =
       Some (order_of [item 1 1, item 2 100] PROCESSING)
   \<and> commits_ok 1 (shop (order_of [item 1 1, item 2 100] PROCESSING) [])
   \<and> books (snd (update_inventory \<lparr>order_id = 1, msg_items = [item 1 1, item 2 100]\<rparr>
                   (shop (order_of [item 1 1, item 2 100] PROCESSING) []))) = shelf
   \<and> map_option stock (shelf 1) = Some 5
   \<and> orders (snd (update_inventory \<lparr>order_id = 1, msg_items = [item 1 1, item 2 100]\<rparr>
                   (shop (order_of [item 1 1, item 2 100] PROCESSING) []))) 1 =
       Some (order_of [item 1 1, item 2 100] CANCELLED)"
  using update_inventory_all_or_nothing
    [of "item 2 100" "\<lparr>order_id = 1, msg_items = [item 1 1, item 2 100]\<rparr>"
        "shop (order_of [item 1 1, item 2 100] PROCESSING) []"
        "order_of [item 1 1, item 2 100] PROCESSING"]
  by (simp add: shop_def shelf_def item_def unavailable_def commits_ok_def order_of_def)


subsection \<open>Several line items for one book\<close>

text \<open>
  What \<open>update_inventory\<close> computes for a message whose order exists, when the store
  accepts the commit. The validation loop looks at one line item at a time, each against
  the stock as it is before any subtraction; the subtraction loop then takes every item
  off. Nothing bounds the stock that results when the items pass one by one.
\<close>

lemma update_inventory_outcome:
  assumes "orders s (order_id msg) = Some row" and "commits_ok 1 s"
  shows "((\<exists>it \<in> set (msg_items msg). unavailable (books s) it) \<longrightarrow>
            orders (snd (update_inventory msg s)) (order_id msg) = Some (row\<lparr>status := CANCELLED\<rparr>)
          \<and> books (snd (update_inventory msg s)) = books s)
       \<and> ((\<forall>it \<in> set (msg_items msg). \<not> unavailable (books s) it) \<longrightarrow>
            orders (snd (update_inventory msg s)) (order_id msg) = Some (row\<lparr>status := PROCESSING\<rparr>)
          \<and> (\<forall>b. books (snd (update_inventory msg s)) b =
                 map_option (\<lambda>book. book\<lparr>stock := stock book - demand (msg_items msg) b\<rparr>)
                   (books s b)))"
proof (intro conjI impI)
  assume bad: "\<exists>it \<in> set (msg_items msg). unavailable (books s) it"
  then obtain e where e: "check_stock (books s) (msg_items msg) = Inl e"
    using check_stock_fails by blast
  have ok: "commits_ok (Suc 0) s"
    using assms(2) by simp
  show "orders (snd (update_inventory msg s)) (order_id msg) = Some (row\<lparr>status := CANCELLED\<rparr>)"
    and "books (snd (update_inventory msg s)) = books s"
    unfolding update_inventory_rejected [OF e] assms(1) cancel_after_error_accepted [OF ok]
    by simp_all
next
  assume good: "\<forall>it \<in> set (msg_items msg). \<not> unavailable (books s) it"
  then have chk: "check_stock (books s) (msg_items msg) = Inr ()"
    by (simp add: check_stock_Inr_iff)
  have ok: "commits_ok (Suc 0) s"
    using assms(2) by simp
  have upd: "update_inventory msg s = reserve (order_id msg) (Some row) (msg_items msg) s"
    by (simp add: update_inventory_def assms(1) reserve_accepted [OF chk ok])
  show "orders (snd (update_inventory msg s)) (order_id msg) = Some (row\<lparr>status := PROCESSING\<rparr>)"
    unfolding upd reserve_accepted [OF chk ok] by simp
  show "\<forall>b. books (snd (update_inventory msg s)) b =
           map_option (\<lambda>book. book\<lparr>stock := stock book - demand (msg_items msg) b\<rparr>) (books s b)"
    unfolding upd reserve_accepted [OF chk ok]
    using deduct_stock_demand [OF available_dom [OF good]] by simp
qed

text \<open>
  C2. The specification asks that the quantities of line items for the same book are added
  up before the comparison, so that an order for 3 and 4 copies of a book with stock 6 is
  rejected. The source has the validation loop and \<open>InsufficientStockError\<close> to keep an
  order from taking more than is in stock, and its docstring says the inventory is updated
  "if sufficient stock is available"; but for book 3 (stock 6) and the items 3 and 4, which
  ask for 7 copies, each item passes on its own, the order stays PROCESSING and the stock
  of book 3 is committed as -1.
\<close>

theorem update_inventory_overdraws_on_duplicates:
  "demand [item 3 3, item 3 4] 3 = 7
   \<and> map_option stock (books (shop (order_of [item 3 3, item 3 4] PROCESSING) []) 3) = Some 6
   \<and> fst (update_inventory \<lparr>order_id = 1, msg_items = [item 3 3, item 3 4]\<rparr>
            (shop (order_of [item 3 3, item 3 4] PROCESSING) [])) = Inr None
   \<and> map_option status
       (stored_orders (snd (update_inventory \<lparr>order_id = 1, msg_items = [item 3 3, item 3 4]\<rparr>
                      (shop (order_of [item 3 3, item 3 4] PROCESSING) []))) 1) = Some PROCESSING
   \<and> map_option stock
       (stored_books (snd (update_inventory \<lparr>order_id = 1, msg_items = [item 3 3, item 3 4]\<rparr>
                      (shop (order_of [item 3 3, item 3 4] PROCESSING) []))) 3) = Some (- 1)
   \<and> effects (snd (update_inventory \<lparr>order_id = 1, msg_items = [item 3 3, item 3 4]\<rparr>
                      (shop (order_of [item 3 3, item 3 4] PROCESSING) []))) =
       [StatusUpdate 10 1 ''processing'']"
  by (simp add: demand_def item_def shop_def shelf_def order_of_def update_inventory_def Let_def
      reserve_def commit_def stored_def set_status_def send_order_status_update_def emit_def)

subsection \<open>A refused commit of the reservation\<close>

text \<open>
  C6, as the specification states it, fails: when the store refuses the commit of the
  deductions, \<open>update_inventory\<close> returns the 500 response from its inner handler; the
  order keeps the status it had (here PROCESSING), in the session and in the store, and
  no status event is sent.
\<close>

theorem update_inventory_commit_failure_counterexample:
  "fst (update_inventory \<lparr>order_id = 1, msg_items = [item 1 1]\<rparr>
          (shop (order_of [item 1 1] PROCESSING) [False])) =
     Inr (Some ([(''message'', Str ''Error updating Inventory''),
                 (''error'', ErrStr SQLAlchemyError)], 500))
   \<and> map_option status
       (orders (snd (update_inventory \<lparr>order_id = 1, msg_items = [item 1 1]\<rparr>
                      (shop (order_of [item 1 1] PROCESSING) [False]))) 1) = Some PROCESSING
   \<and> map_option status
       (stored_orders (snd (update_inventory \<lparr>order_id = 1, msg_items = [item 1 1]\<rparr>
                      (shop (order_of [item 1 1] PROCESSING) [False]))) 1) = Some PROCESSING
   \<and> effects (snd (update_inventory \<lparr>order_id = 1, msg_items = [item 1 1]\<rparr>
                      (shop (order_of [item 1 1] PROCESSING) [False]))) = []"
  by (simp add: item_def shop_def shelf_def order_of_def update_inventory_def Let_def
      reserve_def commit_def rollback_def set_status_def)

text \<open>
  C6, amended. When every line item passes the check and the store refuses the one commit
  of the deductions and the status, the session is rolled back to the stored tables (all
  deductions and the status assignment are undone) and \<open>update_inventory\<close> returns an
  error response with code 500. Nothing else is written and no status event is sent: the
  order keeps its stored status.
\<close>

theorem update_inventory_commit_failure:
  assumes "orders s (order_id msg) = Some row"
    and "\<forall>it \<in> set (msg_items msg). \<not> unavailable (books s) it"
    and "commit_outcomes s = False # rest"
  shows "update_inventory msg s =
           (Inr (Some ([(''message'', Str ''Error updating Inventory''),
                        (''error'', ErrStr SQLAlchemyError)], 500)),
            s\<lparr>books := stored_books s, orders := stored_orders s, commit_outcomes := rest\<rparr>)"
proof -
  have chk: "check_stock (books s) (msg_items msg) = Inr ()"
    using assms(2) by (simp add: check_stock_Inr_iff)
  show ?thesis
    by (simp add: update_inventory_def assms(1) reserve_refused [OF chk assms(3)])
qed

theorem update_inventory_commit_failure_witness:
  "orders (shop (order_of [item 1 1] PROCESSING) [False]) 1 =
      Some (order_of [item 1 1] PROCESSING)
   \<and> list_all (\<lambda>it. \<not> unavailable shelf it) [item 1 1]
   \<and> commit_outcomes (shop (order_of [item 1 1] PROCESSING) [False]) = [False]
   \<and> snd (update_inventory \<lparr>order_id = 1, msg_items = [item 1 1]\<rparr>
            (shop (order_of [item 1 1] PROCESSING) [False])) =
       shop (order_of [item 1 1] PROCESSING) []"
  using update_inventory_commit_failure
    [of "shop (order_of [item 1 1] PROCESSING) [False]"
        "\<lparr>order_id = 1, msg_items = [item 1 1]\<rparr>"
        "order_of [item 1 1] PROCESSING" "[]"]
  by (simp add: shop_def shelf_def item_def unavailable_def)

subsection \<open>Shipping is started by the order consumer\<close>

text \<open>
  C3. The specification has shipping started by the reservation manager, after a
  successful reservation only. In the source \<open>update_inventory\<close> never starts shipping;
  \<open>order_processor\<close> does, right after it has published the inventory message and
  under the comment "After inventory is updated, initiate shipping". For an order of a
  hundred copies of book 2 (stock 2) the shipping thread is started by the order consumer,
  and the reservation that runs on the published message then cancels the order.
\<close>

theorem order_processor_ships_before_reservation:
  "effects (snd (order_processor \<lparr>order_id = 1, msg_items = [item 2 100]\<rparr>
                  (shop (order_of [item 2 100] PENDING) []))) =
     [StatusUpdate 10 1 ''processing'',
      PublishInventoryUpdate \<lparr>order_id = 1, msg_items = [item 2 100]\<rparr>,
      ShippingThread 1]
   \<and> map_option status
       (orders (snd (update_inventory \<lparr>order_id = 1, msg_items = [item 2 100]\<rparr>
          (snd (order_processor \<lparr>order_id = 1, msg_items = [item 2 100]\<rparr>
                  (shop (order_of [item 2 100] PENDING) []))))) 1) = Some CANCELLED
   \<and> effects (snd (update_inventory \<lparr>order_id = 1, msg_items = [item 2 100]\<rparr>
          (snd (order_processor \<lparr>order_id = 1, msg_items = [item 2 100]\<rparr>
                  (shop (order_of [item 2 100] PENDING) []))))) =
     [StatusUpdate 10 1 ''processing'',
      PublishInventoryUpdate \<lparr>order_id = 1, msg_items = [item 2 100]\<rparr>,
      ShippingThread 1,
      StatusUpdate 10 1 ''cancelled'']"
  by (simp add: item_def shop_def shelf_def order_of_def order_processor_def
      update_inventory_def Let_def reserve_def cancel_after_error_def commit_def stored_def
      set_status_def send_order_status_update_def emit_def initiate_shipping_def)


subsection \<open>Messages for an order that does not exist\<close>

text \<open>
  C7. Neither consumer tests the result of \<open>Order.query.get\<close>. For a message whose
  order is absent \<open>order_processor\<close> raises \<open>AttributeError\<close> at the status assignment,
  and \<open>update_inventory\<close> first subtracts the items from the books of the session, then
  raises \<open>AttributeError\<close> inside its own handler (at the log line that reads
  \<open>order.id\<close>), so the exception leaves the callback; the stored books are untouched.
\<close>

theorem absent_order_raises:
  "orders (shop (order_of [] PENDING) []) 99 = None
   \<and> fst (order_processor \<lparr>order_id = 99, msg_items = [item 1 1]\<rparr>
          (shop (order_of [] PENDING) [])) = Inl AttributeError
   \<and> fst (update_inventory \<lparr>order_id = 99, msg_items = [item 1 1]\<rparr>
          (shop (order_of [] PENDING) [])) = Inl AttributeError
   \<and> map_option stock
       (books (snd (update_inventory \<lparr>order_id = 99, msg_items = [item 1 1]\<rparr>
          (shop (order_of [] PENDING) []))) 1) = Some 4
   \<and> map_option stock
       (stored_books (snd (update_inventory \<lparr>order_id = 99, msg_items = [item 1 1]\<rparr>
          (shop (order_of [] PENDING) []))) 1) = Some 5"
  by (simp add: item_def shop_def shelf_def order_of_def order_processor_def
      update_inventory_def Let_def reserve_def cancel_after_error_def)


subsection \<open>The final status after shipping\<close>

text \<open>
  C4. With the book mail sent successfully (\<open>send_book_email\<close> returned \<open>True\<close>),
  \<open>ship_order\<close> commits SHIPPED, then commits CANCELLED and announces it: the test
  \<open>send_book_email == True\<close> compares the function, so DELIVERED is never reached.
\<close>

theorem ship_order_cancels_delivered_mail:
  "fst (ship_order (Inr True) 1 (shop (order_of [item 1 2] PROCESSING) [])) = Inr ()
   \<and> map_option status
       (stored_orders (snd (ship_order (Inr True) 1 (shop (order_of [item 1 2] PROCESSING) []))) 1)
       = Some CANCELLED
   \<and> effects (snd (ship_order (Inr True) 1 (shop (order_of [item 1 2] PROCESSING) []))) =
       [BookEmail ''alice@example.org'' ''a.pdf'' ''A'',
        StatusUpdate 10 1 ''shipped'',
        StatusUpdate 10 1 ''cancelled'']"
  by (simp add: item_def shop_def shelf_def order_of_def alice_def ship_order_def Let_def
      send_book_email_eq_True_def commit_def stored_def
      set_status_def send_order_status_update_def emit_def)


subsection \<open>Status writes are guarded in \<open>cancel_order\<close> only\<close>





subsection \<open>The guard of \<open>cancel_order\<close>\<close>

text \<open>
  C8. For an existing order, a caller who owns it or is an admin, and a store that accepts
  the commit: \<open>cancel_order\<close> on a PENDING or PROCESSING order answers 200, commits the
  order as CANCELLED and sends exactly one status event; on any other status it answers
  400 and changes nothing. So it succeeds exactly when the status is PENDING or PROCESSING.
\<close>

theorem cancel_order_guard:
  assumes "orders s k = Some row" and "user_id row = uid u \<or> is_admin u"
    and "commits_ok 1 s"
  shows "(status row \<in> {PENDING, PROCESSING} \<longrightarrow>
            cancel_order u k s =
              (Inr ([(''message'', Str ''Order cancelled successfully''),
                     (''status'', Str ''cancelled'')], 200),
               s\<lparr>orders := (orders s)(k \<mapsto> row\<lparr>status := CANCELLED\<rparr>),
                 stored_books := books s,
                 stored_orders := (orders s)(k \<mapsto> row\<lparr>status := CANCELLED\<rparr>),
                 commit_outcomes := tl (commit_outcomes s),
                 effects := effects s @ [StatusUpdate (user_id row) k ''cancelled'']\<rparr>))
       \<and> (status row \<notin> {PENDING, PROCESSING} \<longrightarrow>
            cancel_order u k s =
              (Inr ([(''message'', Str ''Order cannot be cancelled''),
                     (''status'', Str (status_value (status row)))], 400), s))
       \<and> ((\<exists>body. fst (cancel_order u k s) = Inr (body, 200)) \<longleftrightarrow>
            status row \<in> {PENDING, PROCESSING})"
proof -
  have ok: "commits_ok (Suc 0) s"
    using assms(3) by simp
  show ?thesis
  proof (cases "status row \<in> {PENDING, PROCESSING}")
    case True
    then have "status row = PENDING \<or> status row = PROCESSING"
      by simp
    from cancel_order_accepted [OF assms(1,2) this ok] True show ?thesis
      by simp
  next
    case False
    then have "status row \<noteq> PENDING" and "status row \<noteq> PROCESSING"
      by simp_all
    from cancel_order_refused [OF assms(1,2) this] False show ?thesis
      by simp
  qed
qed

theorem cancel_order_guard_witness:
  "orders (shop (order_of [item 1 1] PENDING) []) 1 = Some (order_of [item 1 1] PENDING)
   \<and> user_id (order_of [item 1 1] PENDING) = uid alice
   \<and> commits_ok 1 (shop (order_of [item 1 1] PENDING) [])
   \<and> status (order_of [item 1 1] PENDING) = PENDING
   \<and> fst (cancel_order alice 1 (shop (order_of [item 1 1] PENDING) [])) =
       Inr ([(''message'', Str ''Order cancelled successfully''),
             (''status'', Str ''cancelled'')], 200)
   \<and> effects (snd (cancel_order alice 1 (shop (order_of [item 1 1] PENDING) []))) =
       [StatusUpdate 10 1 ''cancelled'']
   \<and> status (order_of [item 1 1] SHIPPED) = SHIPPED
   \<and> cancel_order alice 1 (shop (order_of [item 1 1] SHIPPED) []) =
       (Inr ([(''message'', Str ''Order cannot be cancelled''),
              (''status'', Str ''shipped'')], 400),
        shop (order_of [item 1 1] SHIPPED) [])"
  using cancel_order_guard
    [of "shop (order_of [item 1 1] PENDING) []" 1 "order_of [item 1 1] PENDING" alice]
    cancel_order_guard
    [of "shop (order_of [item 1 1] SHIPPED) []" 1 "order_of [item 1 1] SHIPPED" alice]
  by (simp add: shop_def order_of_def alice_def commits_ok_def)


subsection \<open>Callers who neither own the order nor are admins\<close>

text \<open>
  C10. For an existing order and a logged-in user who is neither its owner nor an admin,
  \<open>get_order_status\<close> and \<open>cancel_order\<close> answer 403 "Unauthorized" and return the
  store as it was: no status, no stock and no event changes.
\<close>

theorem unauthorized_is_refused:
  assumes "orders s k = Some row" and "user_id row \<noteq> uid current_user"
    and "\<not> is_admin current_user"
  shows "get_order_status current_user k s = (Inr ([(''message'', Str ''Unauthorized'')], 403), s)
       \<and> cancel_order current_user k s = (Inr ([(''message'', Str ''Unauthorized'')], 403), s)"
  using assms by (simp add: get_order_status_def cancel_order_def)

theorem unauthorized_is_refused_witness:
  "orders (shop (order_of [item 1 1] PENDING) []) 1 = Some (order_of [item 1 1] PENDING)
   \<and> user_id (order_of [item 1 1] PENDING) \<noteq> uid mallory
   \<and> \<not> is_admin mallory
   \<and> cancel_order mallory 1 (shop (order_of [item 1 1] PENDING) []) =
       (Inr ([(''message'', Str ''Unauthorized'')], 403), shop (order_of [item 1 1] PENDING) [])
   \<and> get_order_status mallory 1 (shop (order_of [item 1 1] PENDING) []) =
       (Inr ([(''message'', Str ''Unauthorized'')], 403), shop (order_of [item 1 1] PENDING) [])"
  using unauthorized_is_refused
    [of "shop (order_of [item 1 1] PENDING) []" 1 "order_of [item 1 1] PENDING" mallory]
  by (simp add: shop_def order_of_def mallory_def)

subsection \<open>What order intake checks\<close>

text \<open>
  C9, as the specification states it, fails: a body with \<open>book_id\<close> and an empty
  \<open>items\<close> list is answered 201, the order is stored in PENDING with no items, and the
  message and the status event go out.
\<close>

theorem place_order_empty_items_counterexample:
  "fst (place_order alice (Some \<lparr>p_book_id = Some 1, p_items = Some []\<rparr>)
          (shop (order_of [item 1 1] PENDING) [])) =
     ([(''message'', Str ''Order placed successfully''), (''order_id'', Num 2)], 201)
   \<and> stored_orders (snd (place_order alice (Some \<lparr>p_book_id = Some 1, p_items = Some []\<rparr>)
          (shop (order_of [item 1 1] PENDING) []))) 2 =
       Some \<lparr>user_id = 10, order_book_id = 1, items = [], status = PENDING\<rparr>
   \<and> effects (snd (place_order alice (Some \<lparr>p_book_id = Some 1, p_items = Some []\<rparr>)
          (shop (order_of [item 1 1] PENDING) []))) =
       [PublishOrder \<lparr>order_id = 2, msg_items = []\<rparr>, StatusUpdate 10 2 ''pending'']"
  by (simp add: item_def shop_def shelf_def order_of_def alice_def place_order_def
      process_order_def Let_def commit_def stored_def send_order_status_update_def emit_def)


text \<open>
  C9, amended. \<open>place_order\<close> tests the body as a whole and \<open>process_order\<close> reads the
  keys \<open>book_id\<close> and \<open>items\<close>: a submission whose body is absent or empty, or lacks one
  of the two keys, is answered 400, stores no order and publishes nothing. A body that has
  both keys is not examined further: whatever its item list holds (an empty list, a
  quantity of zero or less), the order is stored in PENDING under the next key, published
  and announced, and the answer is 201, when the store accepts the commit.
\<close>

theorem place_order_validation:
  "((data = None \<or> (\<exists>d. data = Some d \<and> (p_book_id d = None \<or> p_items d = None))) \<longrightarrow>
      snd (fst (place_order u data s)) = 400 \<and> snd (place_order u data s) = s)
   \<and> (data = Some \<lparr>p_book_id = Some b, p_items = Some its\<rparr> \<and> commits_ok 1 s \<longrightarrow>
      place_order u data s =
        (([(''message'', Str ''Order placed successfully''),
           (''order_id'', Num (next_order_id s))], 201),
         s\<lparr>orders := (orders s)(next_order_id s \<mapsto>
               \<lparr>user_id = uid u, order_book_id = b, items = its, status = PENDING\<rparr>),
           stored_books := books s,
           stored_orders := (orders s)(next_order_id s \<mapsto>
               \<lparr>user_id = uid u, order_book_id = b, items = its, status = PENDING\<rparr>),
           commit_outcomes := tl (commit_outcomes s),
           next_order_id := next_order_id s + 1,
           effects := effects s @
             [PublishOrder \<lparr>order_id = next_order_id s, msg_items = its\<rparr>,
              StatusUpdate (uid u) (next_order_id s) ''pending'']\<rparr>))"
proof (intro conjI impI)
  assume "data = None \<or> (\<exists>d. data = Some d \<and> (p_book_id d = None \<or> p_items d = None))"
  then show "snd (fst (place_order u data s)) = 400" and "snd (place_order u data s) = s"
    by (auto simp: place_order_def process_order_def split: option.splits)
next
  assume a: "data = Some \<lparr>p_book_id = Some b, p_items = Some its\<rparr> \<and> commits_ok 1 s"
  then have ok: "commits_ok (Suc 0) s"
    by simp
  show "place_order u data s =
        (([(''message'', Str ''Order placed successfully''),
           (''order_id'', Num (next_order_id s))], 201),
         s\<lparr>orders := (orders s)(next_order_id s \<mapsto>
               \<lparr>user_id = uid u, order_book_id = b, items = its, status = PENDING\<rparr>),
           stored_books := books s,
           stored_orders := (orders s)(next_order_id s \<mapsto>
               \<lparr>user_id = uid u, order_book_id = b, items = its, status = PENDING\<rparr>),
           commit_outcomes := tl (commit_outcomes s),
           next_order_id := next_order_id s + 1,
           effects := effects s @
             [PublishOrder \<lparr>order_id = next_order_id s, msg_items = its\<rparr>,
              StatusUpdate (uid u) (next_order_id s) ''pending'']\<rparr>)"
    using a by (simp add: place_order_def process_order_accepted [OF ok])
qed

theorem place_order_validation_witness:
  "snd (fst (place_order alice (Some \<lparr>p_book_id = Some 1, p_items = None\<rparr>)
      (shop (order_of [item 1 1] PENDING) []))) = 400
   \<and> snd (place_order alice (Some \<lparr>p_book_id = Some 1, p_items = None\<rparr>)
      (shop (order_of [item 1 1] PENDING) [])) = shop (order_of [item 1 1] PENDING) []
   \<and> commits_ok 1 (shop (order_of [item 1 1] PENDING) [])
   \<and> fst (place_order alice (Some \<lparr>p_book_id = Some 1, p_items = Some [item 1 0]\<rparr>)
      (shop (order_of [item 1 1] PENDING) [])) =
       ([(''message'', Str ''Order placed successfully''), (''order_id'', Num 2)], 201)"
  using place_order_validation
    [where data = "Some \<lparr>p_book_id = Some 1, p_items = None\<rparr>" and u = alice
       and s = "shop (order_of [item 1 1] PENDING) []"]
    place_order_validation
    [where data = "Some \<lparr>p_book_id = Some 1, p_items = Some [item 1 0]\<rparr>" and u = alice
       and s = "shop (order_of [item 1 1] PENDING) []" and b = 1 and its = "[item 1 0]"]
  by (simp add: shop_def commits_ok_def)

end
